theory Spec2Isabelle
  imports Complex_Main "HOL-Library.Word" "HOL-Library.Sublist"
begin

text \<open>
  A model of the server of \<^verbatim>\<open>src/index.ts\<close>: its response envelope, the six tool
  handlers, the weather-code table, the registrations of \<^verbatim>\<open>createServer\<close> and
  the server-info resource. What a handler gets from outside (the result of its one
  outbound call, the formatting of dates and dates, the arithmetic of numbers) is an
  argument of its model; every \<^verbatim>\<open>catch\<close> branch is a branch of the model.
\<close>

section \<open>Strings\<close>

text \<open>
  A string of the program is a sequence of UTF-16 code units, which is what its
  concatenation, comparison and template literals work on. The literals of
  \<^verbatim>\<open>src/index.ts\<close> are written here code unit by code unit; their ASCII
  stretches are written as text through \<open>ascii\<close>.
\<close>

type_synonym jsstring = "16 word list"

definition ascii :: "string \<Rightarrow> jsstring" where
  "ascii s = map (\<lambda>c. of_nat (of_char c)) s"

section \<open>The response envelope\<close>

text \<open>
  A content item is a text item \<^verbatim>\<open>{ type: 'text', text }\<close> or the image item
  that generate-image returns. An envelope has the primary list \<open>content\<close> and,
  when it was built by \<open>createTextResponse\<close>, the object
  \<^verbatim>\<open>structuredContent: { content: [...] }\<close>; the field \<open>structuredContent\<close>
  holds the list inside that object, and is \<open>None\<close> for an envelope without
  the object.
\<close>

datatype content_item =
    TextItem (item_text: jsstring)
  | ImageItem (base64Data: jsstring) (mimeType: jsstring) (audience: "jsstring list") (priority: real)

record envelope =
  content :: "content_item list"
  structuredContent :: "content_item list option"

text \<open>\<^verbatim>\<open>createTextResponse\<close>, index.ts lines 21 to 26.\<close>

definition createTextResponse :: "jsstring \<Rightarrow> envelope" where
  "createTextResponse t =
     \<lparr> content = [TextItem t],
       structuredContent = Some [TextItem t] \<rparr>"

section \<open>Numbers\<close>

text \<open>
  The numbers of the program are IEEE 754 doubles. Their arithmetic and their
  decimal rendering belong to the language, not to \<^verbatim>\<open>src/index.ts\<close>, so the
  handlers take them as arguments: the type of numbers is a type variable \<open>'n\<close>,
  \<open>'n arithmetic\<close> holds the four native operations and the test
  \<^verbatim>\<open>x === 0\<close> (true of both zeros), and \<open>toString\<close> arguments stand for the
  conversion a template literal applies to a number.
\<close>

record 'n arithmetic =
  js_add :: "'n \<Rightarrow> 'n \<Rightarrow> 'n"
  js_sub :: "'n \<Rightarrow> 'n \<Rightarrow> 'n"
  js_mul :: "'n \<Rightarrow> 'n \<Rightarrow> 'n"
  js_div :: "'n \<Rightarrow> 'n \<Rightarrow> 'n"
  js_is_zero :: "'n \<Rightarrow> bool"

text \<open>
  Where the program relies on a number being an integer (the validated
  \<open>forecastDays\<close>, an HTTP status, the keys of the weather-code table) the
  model uses \<open>int\<close>. The conversion of an integer below \<open>10^21\<close> in magnitude
  to a string is its decimal numeral, with a minus sign when negative.
\<close>

definition digit :: "nat \<Rightarrow> 16 word" where
  "digit d = of_nat (48 + d)"

fun digits :: "nat \<Rightarrow> jsstring" where
  "digits n = (if n < 10 then [digit n] else digits (n div 10) @ [digit (n mod 10)])"

declare digits.simps [simp del]

definition int_to_string :: "int \<Rightarrow> jsstring" where
  "int_to_string k = (if k < 0 then 0x2D # digits (nat (- k)) else digits (nat k))"

section \<open>Thrown values\<close>

text \<open>
  What a \<^verbatim>\<open>catch (error)\<close> block receives: an instance of \<^verbatim>\<open>Error\<close> with
  its message, or any other value, kept as the string \<^verbatim>\<open>String(error)\<close> gives.
  \<open>error_text\<close> is the expression
  \<^verbatim>\<open>error instanceof Error ? error.message : String(error)\<close>.
\<close>

datatype thrown = ErrorInstance jsstring | OtherValue jsstring

fun error_text :: "thrown \<Rightarrow> jsstring" where
  "error_text (ErrorInstance message) = message"
| "error_text (OtherValue s) = s"

section \<open>Reading a property of a value that may be missing\<close>

text \<open>
  A value of a parsed body of which the handler reads a property: \<open>Absent\<close> when
  the body has no such value (the handler then holds \<^verbatim>\<open>undefined\<close>),
  \<open>IsNull\<close> for \<^verbatim>\<open>null\<close>, \<open>Present\<close> otherwise. Reading a property of
  \<^verbatim>\<open>undefined\<close> or \<^verbatim>\<open>null\<close> throws a \<^verbatim>\<open>TypeError\<close>, an instance of
  \<^verbatim>\<open>Error\<close> whose message is the runtime's: \<open>cannotRead is_null p\<close> stands
  for the message when the property \<open>p\<close> is read of \<^verbatim>\<open>null\<close> (\<open>is_null\<close>)
  or of \<^verbatim>\<open>undefined\<close>.
\<close>

datatype 'a field = Absent | IsNull | Present 'a

definition read_of :: "(bool \<Rightarrow> jsstring \<Rightarrow> jsstring) \<Rightarrow> 'a field \<Rightarrow> jsstring \<Rightarrow> thrown + 'a" where
  "read_of cannotRead receiver p =
     (case receiver of
        Absent \<Rightarrow> Inl (ErrorInstance (cannotRead False p))
      | IsNull \<Rightarrow> Inl (ErrorInstance (cannotRead True p))
      | Present a \<Rightarrow> Inr a)"

section \<open>greet\<close>

text \<open>
  The handler of lines 88 to 95. \<open>language\<close> is what the schema hands over:
  \<open>Some\<close> of a string, or \<open>None\<close> for \<^verbatim>\<open>undefined\<close>. The test
  \<^verbatim>\<open>language === 'ko'\<close> sends everything else to the English branch.
\<close>

definition greet :: "jsstring \<Rightarrow> jsstring option \<Rightarrow> envelope" where
  "greet name language =
     (let greeting =
        (if language = Some (ascii ''ko'')
         then [0xC548, 0xB155, 0xD558, 0xC138, 0xC694] @ ascii '', '' @ name @ [0xB2D8] @ ascii ''!''
         else ascii ''Hey there, '' @ name @ ascii ''! '' @ [0xD83D, 0xDC4B] @ ascii '' Nice to meet you!'')
      in createTextResponse greeting)"

section \<open>calculator\<close>

text \<open>
  The handler of lines 111 to 139. \<open>operator\<close> is one of the four members of
  the schema's enum. \<open>ZERO_DIVISION_TEXT\<close> is the literal of line 130.
\<close>

datatype operator = Plus | Minus | Times | Divide

definition ZERO_DIVISION_TEXT :: jsstring where
  "ZERO_DIVISION_TEXT =
     [0xC624, 0xB958] @ ascii '': 0'' @ [0xC73C, 0xB85C] @ ascii '' '' @ [0xB098, 0xB20C]
     @ ascii '' '' @ [0xC218] @ ascii '' '' @ [0xC5C6, 0xC2B5, 0xB2C8, 0xB2E4] @ ascii ''.''"

definition calculator ::
  "'n arithmetic \<Rightarrow> ('n \<Rightarrow> jsstring) \<Rightarrow> 'n \<Rightarrow> 'n \<Rightarrow> operator \<Rightarrow> envelope" where
  "calculator A toString num1 num2 operator =
     (let resultText =
        (case operator of
           Plus \<Rightarrow>
             (let result = js_add A num1 num2
              in toString num1 @ ascii '' + '' @ toString num2 @ ascii '' = '' @ toString result)
         | Minus \<Rightarrow>
             (let result = js_sub A num1 num2
              in toString num1 @ ascii '' - '' @ toString num2 @ ascii '' = '' @ toString result)
         | Times \<Rightarrow>
             (let result = js_mul A num1 num2
              in toString num1 @ ascii '' * '' @ toString num2 @ ascii '' = '' @ toString result)
         | Divide \<Rightarrow>
             (if js_is_zero A num2 then ZERO_DIVISION_TEXT
              else (let result = js_div A num1 num2
                    in toString num1 @ ascii '' / '' @ toString num2 @ ascii '' = '' @ toString result)))
      in createTextResponse resultText)"

section \<open>get-time\<close>

text \<open>
  The handler of lines 153 to 172. \<open>format_now timezone\<close> stands for the body of
  the \<^verbatim>\<open>try\<close> block up to \<^verbatim>\<open>formatter.format(now)\<close>: building the
  \<^verbatim>\<open>Intl.DateTimeFormat\<close> for the time zone and formatting the current
  instant. It is \<open>Inr\<close> of the formatted time, or \<open>Inl\<close> of what was thrown
  (a \<^verbatim>\<open>RangeError\<close> when the runtime does not accept the time zone). The
  \<^verbatim>\<open>catch\<close> block does not look at the error.
\<close>

definition get_time :: "(jsstring \<Rightarrow> thrown + jsstring) \<Rightarrow> jsstring \<Rightarrow> envelope" where
  "get_time format_now timezone =
     (case format_now timezone of
        Inr formattedTime \<Rightarrow>
          createTextResponse
            (timezone @ [0xC758] @ ascii '' '' @ [0xD604, 0xC7AC] @ ascii '' ''
             @ [0xC2DC, 0xAC04] @ ascii '': '' @ formattedTime)
      | Inl error \<Rightarrow>
          createTextResponse
            ([0xC624, 0xB958] @ ascii '': '' @ [0xC720, 0xD6A8, 0xD558, 0xC9C0] @ ascii '' ''
             @ [0xC54A, 0xC740] @ ascii '' '' @ [0xD0C0, 0xC784, 0xC874, 0xC785, 0xB2C8, 0xB2E4]
             @ ascii ''. ('' @ timezone @ ascii '')''))"

section \<open>geocode\<close>

text \<open>
  What the handlers of geocode and get-weather get from their one outbound call.
  \<open>FetchThrows\<close>: something was thrown before a response was there (by
  \<^verbatim>\<open>encodeURIComponent\<close> or by \<^verbatim>\<open>fetch\<close>). \<open>Response ok status body\<close>:
  a response with its fields \<^verbatim>\<open>ok\<close> and \<^verbatim>\<open>status\<close>, and what
  \<^verbatim>\<open>await response.json()\<close> gives, \<open>Inl\<close> when it throws.
\<close>

datatype 'b fetched = FetchThrows thrown | Response bool int "thrown + 'b"

text \<open>
  The parsed body of the geocoding service: a value that is no array, or an array.
  An element of the array is \<^verbatim>\<open>null\<close> (\<open>IsNull\<close>) or a value with the
  optional fields \<^verbatim>\<open>lat\<close>, \<^verbatim>\<open>lon\<close> and \<^verbatim>\<open>display_name\<close>, strings
  when present (\<open>None\<close>: the element has no such field, so reading it gives
  \<^verbatim>\<open>undefined\<close>).
\<close>

record place =
  lat :: "jsstring option"
  lon :: "jsstring option"
  display_name :: "jsstring option"

datatype geocode_body = NotAnArray | Places "place field list"

text \<open>
  The argument of \<^verbatim>\<open>parseFloat\<close> is converted to a string first;
  \<^verbatim>\<open>undefined\<close> becomes the string \<^verbatim>\<open>undefined\<close>.
\<close>

definition field_string :: "jsstring option \<Rightarrow> jsstring" where
  "field_string f = (case f of Some s \<Rightarrow> s | None \<Rightarrow> ascii ''undefined'')"

text \<open>
  \<^verbatim>\<open>a || b\<close> on an optional string and a string: \<^verbatim>\<open>undefined\<close> and the
  empty string are falsy.
\<close>

definition or_else :: "jsstring option \<Rightarrow> jsstring \<Rightarrow> jsstring" where
  "or_else a b = (case a of Some s \<Rightarrow> (if s = [] then b else s) | None \<Rightarrow> b)"

definition geocode_failure :: "thrown \<Rightarrow> envelope" where
  "geocode_failure error =
     createTextResponse
       ([0xC624, 0xB958] @ ascii '': '' @ [0xC8FC, 0xC18C, 0xB97C] @ ascii '' ''
        @ [0xC870, 0xD68C, 0xD558, 0xB294] @ ascii '' '' @ [0xC911] @ ascii '' ''
        @ [0xBB38, 0xC81C, 0xAC00] @ ascii '' ''
        @ [0xBC1C, 0xC0DD, 0xD588, 0xC2B5, 0xB2C8, 0xB2E4] @ ascii ''. '' @ error_text error)"

definition http_error :: "int \<Rightarrow> thrown" where
  "http_error status = ErrorInstance (ascii ''HTTP error! status: '' @ int_to_string status)"

text \<open>
  The handler of lines 186 to 220, given the outcome of its outbound lookup.
  \<open>parseFloat\<close> and \<open>toString\<close> are the language's. The first read of a
  property of \<^verbatim>\<open>result\<close> is \<^verbatim>\<open>result.lat\<close> on line 208; when
  \<^verbatim>\<open>result\<close> is \<^verbatim>\<open>null\<close> it throws, and the \<^verbatim>\<open>catch\<close> block of lines
  215 to 219 answers.
\<close>

definition geocode ::
  "(jsstring \<Rightarrow> 'n) \<Rightarrow> ('n \<Rightarrow> jsstring) \<Rightarrow> (bool \<Rightarrow> jsstring \<Rightarrow> jsstring) \<Rightarrow> jsstring
   \<Rightarrow> geocode_body fetched \<Rightarrow> envelope" where
  "geocode parseFloat toString cannotRead address response =
     (case response of
        FetchThrows error \<Rightarrow> geocode_failure error
      | Response ok status body \<Rightarrow>
          if \<not> ok then geocode_failure (http_error status)
          else
            (case body of
               Inl error \<Rightarrow> geocode_failure error
             | Inr NotAnArray \<Rightarrow>
                 createTextResponse
                   ([0xC8FC, 0xC18C, 0xB97C] @ ascii '' '' @ [0xCC3E, 0xC744] @ ascii '' ''
                    @ [0xC218] @ ascii '' '' @ [0xC5C6, 0xC2B5, 0xB2C8, 0xB2E4] @ ascii '': ''
                    @ address)
             | Inr (Places []) \<Rightarrow>
                 createTextResponse
                   ([0xC8FC, 0xC18C, 0xB97C] @ ascii '' '' @ [0xCC3E, 0xC744] @ ascii '' ''
                    @ [0xC218] @ ascii '' '' @ [0xC5C6, 0xC2B5, 0xB2C8, 0xB2E4] @ ascii '': ''
                    @ address)
             | Inr (Places (first # _)) \<Rightarrow>
                 (case read_of cannotRead first (ascii ''lat'') of
                    Inl error \<Rightarrow> geocode_failure error
                  | Inr result \<Rightarrow>
                      (let latitude = parseFloat (field_string (lat result));
                           longitude = parseFloat (field_string (lon result));
                           displayName = or_else (display_name result) address
                       in createTextResponse
                            ([0xC8FC, 0xC18C] @ ascii '': '' @ displayName
                             @ [0x000A, 0xC704, 0xB3C4] @ ascii '': '' @ toString latitude
                             @ [0x000A, 0xACBD, 0xB3C4] @ ascii '': '' @ toString longitude
                             @ [0x000A, 0xC88C, 0xD45C] @ ascii '': ('' @ toString latitude
                             @ ascii '', '' @ toString longitude @ ascii '')'')))))"

section \<open>Weather codes\<close>

text \<open>
  A value read from the weather service where the handler expects a number: a number,
  \<^verbatim>\<open>null\<close>, or \<^verbatim>\<open>undefined\<close> (a missing field, or an index past the end of
  an array). \<open>value_to_string\<close> is the conversion of a template literal.
\<close>

datatype 'n "value" = Undefined | Null | Number 'n

fun value_to_string :: "('n \<Rightarrow> jsstring) \<Rightarrow> 'n value \<Rightarrow> jsstring" where
  "value_to_string toString Undefined = ascii ''undefined''"
| "value_to_string toString Null = ascii ''null''"
| "value_to_string toString (Number x) = toString x"

text \<open>\<^verbatim>\<open>WEATHER_CODES\<close>, lines 29 to 58, with its keys as the source writes them.\<close>

definition WEATHER_CODES :: "(int \<times> jsstring) list" where
  "WEATHER_CODES =
    [(0, [0xB9D1, 0xC74C]),
     (1, [0xB300, 0xCCB4, 0xB85C] @ ascii '' '' @ [0xB9D1, 0xC74C]),
     (2, [0xBD80, 0xBD84, 0xC801, 0xC73C, 0xB85C] @ ascii '' '' @ [0xD750, 0xB9BC]),
     (3, [0xD750, 0xB9BC]),
     (45, [0xC548, 0xAC1C]),
     (48, [0xC11C, 0xB9AC] @ ascii '' '' @ [0xC548, 0xAC1C]),
     (51, [0xC57D, 0xD55C] @ ascii '' '' @ [0xC774, 0xC2AC, 0xBE44]),
     (53, [0xC911, 0xAC04] @ ascii '' '' @ [0xC774, 0xC2AC, 0xBE44]),
     (55, [0xAC15, 0xD55C] @ ascii '' '' @ [0xC774, 0xC2AC, 0xBE44]),
     (56, [0xC57D, 0xD55C] @ ascii '' '' @ [0xB3D9, 0xACB0] @ ascii '' '' @ [0xC774, 0xC2AC, 0xBE44]),
     (57, [0xAC15, 0xD55C] @ ascii '' '' @ [0xB3D9, 0xACB0] @ ascii '' '' @ [0xC774, 0xC2AC, 0xBE44]),
     (61, [0xC57D, 0xD55C] @ ascii '' '' @ [0xBE44]),
     (63, [0xC911, 0xAC04] @ ascii '' '' @ [0xBE44]),
     (65, [0xAC15, 0xD55C] @ ascii '' '' @ [0xBE44]),
     (66, [0xC57D, 0xD55C] @ ascii '' '' @ [0xB3D9, 0xACB0] @ ascii '' '' @ [0xBE44]),
     (67, [0xAC15, 0xD55C] @ ascii '' '' @ [0xB3D9, 0xACB0] @ ascii '' '' @ [0xBE44]),
     (71, [0xC57D, 0xD55C] @ ascii '' '' @ [0xB208]),
     (73, [0xC911, 0xAC04] @ ascii '' '' @ [0xB208]),
     (75, [0xAC15, 0xD55C] @ ascii '' '' @ [0xB208]),
     (77, [0xB208, 0xC54C]),
     (80, [0xC57D, 0xD55C] @ ascii '' '' @ [0xC18C, 0xB098, 0xAE30]),
     (81, [0xC911, 0xAC04] @ ascii '' '' @ [0xC18C, 0xB098, 0xAE30]),
     (82, [0xAC15, 0xD55C] @ ascii '' '' @ [0xC18C, 0xB098, 0xAE30]),
     (85, [0xC57D, 0xD55C] @ ascii '' '' @ [0xB208] @ ascii '' '' @ [0xC18C, 0xB098, 0xAE30]),
     (86, [0xAC15, 0xD55C] @ ascii '' '' @ [0xB208] @ ascii '' '' @ [0xC18C, 0xB098, 0xAE30]),
     (95, [0xCC9C, 0xB465, 0xBC88, 0xAC1C]),
     (96, [0xCC9C, 0xB465, 0xBC88, 0xAC1C, 0xC640] @ ascii '' '' @ [0xC57D, 0xD55C] @ ascii '' ''
          @ [0xC6B0, 0xBC15]),
     (99, [0xCC9C, 0xB465, 0xBC88, 0xAC1C, 0xC640] @ ascii '' '' @ [0xAC15, 0xD55C] @ ascii '' ''
          @ [0xC6B0, 0xBC15])]"

text \<open>
  \<^verbatim>\<open>table[key]\<close>: the properties of an object are named by strings, a numeric
  key of the literal names the property that is its decimal numeral, and the read
  converts its key to a string. The strings \<^verbatim>\<open>undefined\<close> and \<^verbatim>\<open>null\<close>
  and the renderings of numbers name no property an object inherits, so the read
  finds what the literal wrote or nothing.
\<close>

definition property :: "(int \<times> jsstring) list \<Rightarrow> jsstring \<Rightarrow> jsstring option" where
  "property table key = map_of (map (\<lambda>(k, description). (int_to_string k, description)) table) key"

text \<open>
  \<^verbatim>\<open>getWeatherDescription\<close>, lines 60 and 61. The fallback of \<^verbatim>\<open>||\<close> is
  taken when the table has no such property, and would be for an empty description.
\<close>

definition getWeatherDescription :: "('n \<Rightarrow> jsstring) \<Rightarrow> 'n value \<Rightarrow> jsstring" where
  "getWeatherDescription toString code =
     (case property WEATHER_CODES (value_to_string toString code) of
        Some description \<Rightarrow>
          (if description \<noteq> [] then description
           else [0xCF54, 0xB4DC] @ ascii '' '' @ value_to_string toString code)
      | None \<Rightarrow> [0xCF54, 0xB4DC] @ ascii '' '' @ value_to_string toString code)"

section \<open>get-weather\<close>

text \<open>
  The parsed body of the weather service. The handler reads properties of the body,
  of its \<^verbatim>\<open>current_weather\<close>, of its \<^verbatim>\<open>daily\<close>, and of the five
  arrays of \<^verbatim>\<open>daily\<close>; each of them may be missing or \<^verbatim>\<open>null\<close>. Where
  they are present, \<^verbatim>\<open>current_weather\<close> has three values,
  \<^verbatim>\<open>daily.time\<close> is an array of date strings and the other four are arrays
  of values, of any lengths.
\<close>

record 'n current_conditions =
  temperature :: "'n value"
  weathercode :: "'n value"
  windspeed :: "'n value"

record 'n daily_series =
  time :: "jsstring list field"
  temperature_2m_max :: "'n value list field"
  temperature_2m_min :: "'n value list field"
  precipitation_sum :: "'n value list field"
  weather_code :: "'n value list field"

record 'n weather_body =
  current_weather :: "'n current_conditions field"
  daily :: "'n daily_series field"

text \<open>\<^verbatim>\<open>xs[i]\<close>: past the end of the array the read gives \<^verbatim>\<open>undefined\<close>.\<close>

definition element :: "'a list \<Rightarrow> nat \<Rightarrow> 'a option" where
  "element xs i = (if i < length xs then Some (xs ! i) else None)"

definition value_at :: "'n value list \<Rightarrow> nat \<Rightarrow> 'n value" where
  "value_at xs i = (case element xs i of Some v \<Rightarrow> v | None \<Rightarrow> Undefined)"

text \<open>
  The text one pass of the loop appends, lines 279 to 288, from the five arrays.
  \<open>dateLabel\<close> stands for \<^verbatim>\<open>new Date(x).toLocaleDateString('ko-KR', ...)\<close>,
  which depends on the runtime's locale data and returns a string for every argument.
\<close>

definition day_text ::
  "('n \<Rightarrow> jsstring) \<Rightarrow> (jsstring option \<Rightarrow> jsstring) \<Rightarrow> jsstring list \<Rightarrow> 'n value list
   \<Rightarrow> 'n value list \<Rightarrow> 'n value list \<Rightarrow> 'n value list \<Rightarrow> nat \<Rightarrow> jsstring" where
  "day_text toString dateLabel dates maxima minima rains codes i =
     (let dateStr = dateLabel (element dates i)
      in [0x000A] @ dateStr @ ascii '':'' @ [0x000A]
         @ ascii ''  '' @ [0xCD5C, 0xACE0] @ ascii '': ''
         @ value_to_string toString (value_at maxima i)
         @ [0x00B0] @ ascii ''C / '' @ [0xCD5C, 0xC800] @ ascii '': ''
         @ value_to_string toString (value_at minima i)
         @ [0x00B0] @ ascii ''C'' @ [0x000A]
         @ ascii ''  '' @ [0xAC15, 0xC218, 0xB7C9] @ ascii '': ''
         @ value_to_string toString (value_at rains i) @ ascii ''mm'' @ [0x000A]
         @ ascii ''  '' @ [0xB0A0, 0xC528] @ ascii '': ''
         @ getWeatherDescription toString (value_at codes i) @ [0x000A])"

text \<open>
  One pass of the loop: the reads \<^verbatim>\<open>daily.time[i]\<close> of line 279,
  \<^verbatim>\<open>daily.temperature_2m_max[i]\<close> and \<^verbatim>\<open>daily.temperature_2m_min[i]\<close> of
  line 286, \<^verbatim>\<open>daily.precipitation_sum[i]\<close> of line 287 and
  \<^verbatim>\<open>daily.weather_code[i]\<close> of line 288, in this order. Each throws when its
  array is missing or \<^verbatim>\<open>null\<close>; the property read is the index.
\<close>

definition day_block ::
  "('n \<Rightarrow> jsstring) \<Rightarrow> (jsstring option \<Rightarrow> jsstring) \<Rightarrow> (bool \<Rightarrow> jsstring \<Rightarrow> jsstring)
   \<Rightarrow> 'n daily_series \<Rightarrow> nat \<Rightarrow> thrown + jsstring" where
  "day_block toString dateLabel cannotRead d i =
     (case read_of cannotRead (time d) (int_to_string (int i)) of
        Inl error \<Rightarrow> Inl error
      | Inr dates \<Rightarrow>
     (case read_of cannotRead (temperature_2m_max d) (int_to_string (int i)) of
        Inl error \<Rightarrow> Inl error
      | Inr maxima \<Rightarrow>
     (case read_of cannotRead (temperature_2m_min d) (int_to_string (int i)) of
        Inl error \<Rightarrow> Inl error
      | Inr minima \<Rightarrow>
     (case read_of cannotRead (precipitation_sum d) (int_to_string (int i)) of
        Inl error \<Rightarrow> Inl error
      | Inr rains \<Rightarrow>
     (case read_of cannotRead (weather_code d) (int_to_string (int i)) of
        Inl error \<Rightarrow> Inl error
      | Inr codes \<Rightarrow>
          Inr (day_text toString dateLabel dates maxima minima rains codes i))))))"

text \<open>
  The loop of lines 278 to 289, from the index \<open>i\<close> and the text built so far:
  \<^verbatim>\<open>for (...; i < Math.min(forecastDays, daily.time.length); i++)\<close>. The
  condition reads \<^verbatim>\<open>daily.time\<close> and its \<^verbatim>\<open>length\<close>, and throws when
  \<^verbatim>\<open>daily\<close> or \<^verbatim>\<open>daily.time\<close> is missing or \<^verbatim>\<open>null\<close>. The result
  of the loop is the text, or what a read threw.
\<close>

function forecast_loop ::
  "('n \<Rightarrow> jsstring) \<Rightarrow> (jsstring option \<Rightarrow> jsstring) \<Rightarrow> (bool \<Rightarrow> jsstring \<Rightarrow> jsstring) \<Rightarrow> int
   \<Rightarrow> 'n daily_series field \<Rightarrow> nat \<Rightarrow> jsstring \<Rightarrow> thrown + jsstring" where
  "forecast_loop toString dateLabel cannotRead forecastDays daily_field i resultText =
     (case read_of cannotRead daily_field (ascii ''time'') of
        Inl error \<Rightarrow> Inl error
      | Inr d \<Rightarrow>
          (case read_of cannotRead (time d) (ascii ''length'') of
             Inl error \<Rightarrow> Inl error
           | Inr dates \<Rightarrow>
               if int i < min forecastDays (int (length dates))
               then (case day_block toString dateLabel cannotRead d i of
                       Inl error \<Rightarrow> Inl error
                     | Inr block \<Rightarrow>
                         forecast_loop toString dateLabel cannotRead forecastDays daily_field
                           (Suc i) (resultText @ block))
               else Inr resultText))"
  by pat_completeness auto
termination
  by (relation "measure (\<lambda>(toString, dateLabel, cannotRead, forecastDays, daily_field, i, resultText).
         case daily_field of
           Present d \<Rightarrow> (case time d of Present dates \<Rightarrow> length dates - i | _ \<Rightarrow> 0)
         | _ \<Rightarrow> 0)")
     (auto simp: read_of_def split: field.splits)

declare forecast_loop.simps [simp del]

text \<open>The text built before the loop, lines 271 to 277.\<close>

definition weather_heading ::
  "('n \<Rightarrow> jsstring) \<Rightarrow> 'n \<Rightarrow> 'n \<Rightarrow> int \<Rightarrow> 'n current_conditions \<Rightarrow> jsstring" where
  "weather_heading toString latitude longitude forecastDays current =
     [0xD83D, 0xDCCD] @ ascii '' '' @ [0xC704, 0xCE58] @ ascii '': '' @ [0xC704, 0xB3C4] @ ascii '' ''
     @ toString latitude @ ascii '', '' @ [0xACBD, 0xB3C4] @ ascii '' '' @ toString longitude
     @ [0x000A, 0x000A]
     @ [0xD83C, 0xDF21, 0xFE0F] @ ascii '' '' @ [0xD604, 0xC7AC] @ ascii '' '' @ [0xB0A0, 0xC528]
     @ ascii '':'' @ [0x000A]
     @ ascii ''  '' @ [0xC628, 0xB3C4] @ ascii '': '' @ value_to_string toString (temperature current)
     @ [0x00B0] @ ascii ''C'' @ [0x000A]
     @ ascii ''  '' @ [0xB0A0, 0xC528] @ ascii '': '' @ getWeatherDescription toString (weathercode current)
     @ [0x000A]
     @ ascii ''  '' @ [0xD48D, 0xC18D] @ ascii '': '' @ value_to_string toString (windspeed current)
     @ ascii '' km/h'' @ [0x000A, 0x000A]
     @ [0xD83D, 0xDCC5] @ ascii '' '' @ int_to_string forecastDays @ [0xC77C] @ ascii '' ''
     @ [0xC608, 0xBCF4] @ ascii '':'' @ [0x000A]"

definition weather_failure :: "thrown \<Rightarrow> envelope" where
  "weather_failure error =
     createTextResponse
       ([0xC624, 0xB958] @ ascii '': '' @ [0xB0A0, 0xC528] @ ascii '' '' @ [0xC815, 0xBCF4, 0xB97C]
        @ ascii '' '' @ [0xC870, 0xD68C, 0xD558, 0xB294] @ ascii '' '' @ [0xC911] @ ascii '' ''
        @ [0xBB38, 0xC81C, 0xAC00] @ ascii '' ''
        @ [0xBC1C, 0xC0DD, 0xD588, 0xC2B5, 0xB2C8, 0xB2E4] @ ascii ''. '' @ error_text error)"

text \<open>
  Lines 268 to 289 on the parsed body \<open>data\<close>: \<^verbatim>\<open>data.current_weather\<close> of
  line 268 throws when the body is \<^verbatim>\<open>null\<close>, \<^verbatim>\<open>current.temperature\<close> of
  line 273 when \<^verbatim>\<open>current_weather\<close> is missing or \<^verbatim>\<open>null\<close>, and then the
  loop runs. \<^verbatim>\<open>data.daily\<close> of line 269 reads the same body and is reached
  only when line 268 did not throw.
\<close>

definition weather_text ::
  "('n \<Rightarrow> jsstring) \<Rightarrow> (jsstring option \<Rightarrow> jsstring) \<Rightarrow> (bool \<Rightarrow> jsstring \<Rightarrow> jsstring)
   \<Rightarrow> 'n \<Rightarrow> 'n \<Rightarrow> int \<Rightarrow> 'n weather_body field \<Rightarrow> thrown + jsstring" where
  "weather_text toString dateLabel cannotRead latitude longitude forecastDays data =
     (case read_of cannotRead data (ascii ''current_weather'') of
        Inl error \<Rightarrow> Inl error
      | Inr body \<Rightarrow>
          (case read_of cannotRead (current_weather body) (ascii ''temperature'') of
             Inl error \<Rightarrow> Inl error
           | Inr current \<Rightarrow>
               forecast_loop toString dateLabel cannotRead forecastDays (daily body) 0
                 (weather_heading toString latitude longitude forecastDays current)))"

text \<open>
  The handler of lines 249 to 297, given the outcome of its outbound call.
  \<open>forecastDays\<close> is the validated integer, or \<open>None\<close> for \<^verbatim>\<open>undefined\<close>,
  which the parameter default \<^verbatim>\<open>forecastDays = 7\<close> replaces. Whatever is thrown
  inside the \<^verbatim>\<open>try\<close> block goes to the \<^verbatim>\<open>catch\<close> block of lines 292 to 296.
\<close>

definition get_weather ::
  "('n \<Rightarrow> jsstring) \<Rightarrow> (jsstring option \<Rightarrow> jsstring) \<Rightarrow> (bool \<Rightarrow> jsstring \<Rightarrow> jsstring)
   \<Rightarrow> 'n \<Rightarrow> 'n \<Rightarrow> int option \<Rightarrow> 'n weather_body field fetched \<Rightarrow> envelope" where
  "get_weather toString dateLabel cannotRead latitude longitude forecastDaysArg response =
     (let forecastDays = (case forecastDaysArg of Some n \<Rightarrow> n | None \<Rightarrow> 7)
      in case response of
           FetchThrows error \<Rightarrow> weather_failure error
         | Response ok status body \<Rightarrow>
             if \<not> ok then weather_failure (http_error status)
             else
               (case body of
                  Inl error \<Rightarrow> weather_failure error
                | Inr data \<Rightarrow>
                    (case weather_text toString dateLabel cannotRead latitude longitude
                            forecastDays data of
                       Inl error \<Rightarrow> weather_failure error
                     | Inr resultText \<Rightarrow> createTextResponse resultText)))"

section \<open>generate-image\<close>









section \<open>The registrations and the server-info resource\<close>

text \<open>
  What \<^verbatim>\<open>createServer\<close> registers, by name and in the order of its calls: six
  calls of \<^verbatim>\<open>registerTool\<close> (lines 75 to 346), one of
  \<^verbatim>\<open>registerPrompt\<close> and one of \<^verbatim>\<open>registerResource\<close>. The handlers
  registered under the names are the functions of the sections above.
\<close>

record registry =
  registeredTools :: "jsstring list"
  registeredPrompts :: "jsstring list"
  registeredResources :: "(jsstring \<times> jsstring) list"

definition registerTool :: "jsstring \<Rightarrow> registry \<Rightarrow> registry" where
  "registerTool name r = r\<lparr> registeredTools := registeredTools r @ [name] \<rparr>"

definition registerPrompt :: "jsstring \<Rightarrow> registry \<Rightarrow> registry" where
  "registerPrompt name r = r\<lparr> registeredPrompts := registeredPrompts r @ [name] \<rparr>"

definition registerResource :: "jsstring \<Rightarrow> jsstring \<Rightarrow> registry \<Rightarrow> registry" where
  "registerResource name uri r = r\<lparr> registeredResources := registeredResources r @ [(name, uri)] \<rparr>"

definition createServer :: registry where
  "createServer =
     (let server = \<lparr> registeredTools = [], registeredPrompts = [], registeredResources = [] \<rparr>;
          server = registerTool (ascii ''greet'') server;
          server = registerTool (ascii ''calculator'') server;
          server = registerTool (ascii ''get-time'') server;
          server = registerTool (ascii ''geocode'') server;
          server = registerTool (ascii ''get-weather'') server;
          server = registerTool (ascii ''generate-image'') server;
          server = registerPrompt (ascii ''code-review'') server;
          server = registerResource (ascii ''server-info'') (ascii ''server://info'') server
      in server)"

text \<open>
  The object \<^verbatim>\<open>serverInfo\<close> of lines 427 to 443, which the supplier returns as
  the text \<^verbatim>\<open>JSON.stringify(serverInfo, null, 2)\<close>. The time stamp and the
  uptime come from the runtime.
\<close>

record 'n server_identity =
  server_name :: jsstring
  server_version :: jsstring
  timestamp :: jsstring
  uptime :: 'n

record tool_entry =
  tool_name :: jsstring
  tool_description :: jsstring

record 'n serverInfo =
  server :: "'n server_identity"
  tools :: "tool_entry list"
  totalTools :: nat

definition server_info :: "jsstring \<Rightarrow> 'n \<Rightarrow> 'n serverInfo" where
  "server_info now up =
     \<lparr> server = \<lparr> server_name = ascii ''mcp-server-251215'', server_version = ascii ''1.0.0'',
                    timestamp = now, uptime = up \<rparr>,
       tools =
         [\<lparr> tool_name = ascii ''greet'',
            tool_description = [0xC778, 0xC0AC, 0xB9D0] @ ascii '' '' @ [0xBC18, 0xD658] \<rparr>,
          \<lparr> tool_name = ascii ''calculator'',
            tool_description = [0xC0AC, 0xCE59, 0xC5F0, 0xC0B0] \<rparr>,
          \<lparr> tool_name = ascii ''get-time'',
            tool_description = [0xD0C0, 0xC784, 0xC874, 0xBCC4] @ ascii '' '' @ [0xD604, 0xC7AC]
              @ ascii '' '' @ [0xC2DC, 0xAC04] \<rparr>,
          \<lparr> tool_name = ascii ''geocode'',
            tool_description = [0xC8FC, 0xC18C, 0xB97C] @ ascii '' '' @ [0xC88C, 0xD45C, 0xB85C]
              @ ascii '' '' @ [0xBCC0, 0xD658] \<rparr>,
          \<lparr> tool_name = ascii ''get-weather'',
            tool_description = [0xB0A0, 0xC528] @ ascii '' '' @ [0xC815, 0xBCF4] \<rparr>,
          \<lparr> tool_name = ascii ''generate-image'',
            tool_description = ascii ''AI '' @ [0xC774, 0xBBF8, 0xC9C0] @ ascii '' ''
              @ [0xC0DD, 0xC131] \<rparr>],
       totalTools = 6 \<rparr>"

section \<open>Schemas and their validation\<close>

text \<open>
  A raw argument as the host hands it over, a JSON value. A number is given by its
  value. A field missing from the arguments is \<open>None\<close> where a field is looked up.
\<close>

datatype raw =
    RString jsstring
  | RNumber real
  | RBool bool
  | RNull
  | RArray "raw list"
  | RObject "(jsstring \<times> raw) list"

text \<open>The constraint a rejected value violates.\<close>

datatype violation = Required | WrongType | NotInEnum | NotAnInteger | TooSmall | TooBig

type_synonym 'a schema = "raw option \<Rightarrow> violation + 'a"

text \<open>
  Modelled from the spec: the validation of an enum field. The validator is the
  schema library the program imports, which is not among the sources. The spec's
  section 4.1: a value of the wrong type fails, enum checks are exact string match,
  and a field that is not optional must be present.
\<close>

definition z_enum :: "jsstring list \<Rightarrow> jsstring schema" where
  "z_enum members arg =
     (case arg of
        None \<Rightarrow> Inl Required
      | Some (RString s) \<Rightarrow> if s \<in> set members then Inr s else Inl NotInEnum
      | Some _ \<Rightarrow> Inl WrongType)"

text \<open>
  Modelled from the spec: the validation of a number field with its checks, in the
  order the schema declares them (the library is not among the sources). The spec's
  section 4.1: numeric range checks are inclusive on both bounds.
\<close>

datatype number_check = IsInt | AtLeast real | AtMost real

fun check_violation :: "number_check \<Rightarrow> real \<Rightarrow> violation option" where
  "check_violation IsInt x = (if of_int \<lfloor>x\<rfloor> = x then None else Some NotAnInteger)"
| "check_violation (AtLeast lo) x = (if x < lo then Some TooSmall else None)"
| "check_violation (AtMost hi) x = (if hi < x then Some TooBig else None)"

fun run_checks :: "number_check list \<Rightarrow> real \<Rightarrow> violation + real" where
  "run_checks [] x = Inr x"
| "run_checks (c # cs) x =
     (case check_violation c x of Some v \<Rightarrow> Inl v | None \<Rightarrow> run_checks cs x)"

definition z_number :: "number_check list \<Rightarrow> real schema" where
  "z_number checks arg =
     (case arg of
        None \<Rightarrow> Inl Required
      | Some (RNumber x) \<Rightarrow> run_checks checks x
      | Some _ \<Rightarrow> Inl WrongType)"

text \<open>
  Modelled from the spec: \<^verbatim>\<open>.optional()\<close> (the library is not among the
  sources). An absent value is accepted as absent; a value that is present goes to the
  schema that was made optional.
\<close>

definition z_optional :: "'a schema \<Rightarrow> 'a option schema" where
  "z_optional inner arg =
     (case arg of
        None \<Rightarrow> Inr None
      | Some v \<Rightarrow> (case inner (Some v) of Inl e \<Rightarrow> Inl e | Inr a \<Rightarrow> Inr (Some a)))"

text \<open>
  Modelled from the spec: \<^verbatim>\<open>.default(d)\<close> (the library is not among the
  sources). The spec's section 4.1: defaults are applied only to fields declared
  optional and absent from input; a declared but invalid value always fails, even if a
  default exists. So the default stands in for an absent value and for nothing else,
  and the value then goes through the schema the default was put on.
\<close>

definition z_default :: "'a schema \<Rightarrow> raw \<Rightarrow> 'a schema" where
  "z_default inner d arg =
     (case arg of
        None \<Rightarrow> inner (Some d)
      | Some v \<Rightarrow> inner (Some v))"

text \<open>
  The two fields of the source that declare a default: \<open>language\<close> of greet
  (lines 81 to 85), and \<open>forecastDays\<close> of get-weather (lines 239 to 246).
\<close>

definition language_default :: jsstring where
  "language_default = ascii ''en''"

definition language_schema :: "jsstring option schema" where
  "language_schema =
     z_default (z_optional (z_enum [ascii ''ko'', ascii ''en''])) (RString language_default)"

definition forecastDays_schema :: "real option schema" where
  "forecastDays_schema =
     z_default (z_optional (z_number [IsInt, AtLeast 1, AtMost 16])) (RNumber 7)"

section \<open>A sample runtime\<close>

text \<open>
  Arguments for running the handlers on concrete inputs. \<open>v8_cannot_read\<close> is
  the message of the \<^verbatim>\<open>TypeError\<close> of the V8 engine. \<open>plain_dateLabel\<close>
  labels a date by its own date string. In \<open>known_parseFloat\<close> a number is
  given by its rendering, so that its \<open>toString\<close> is \<open>rendering\<close>; it agrees
  with \<^verbatim>\<open>parseFloat\<close> on the two numerals it knows and on the strings that
  begin no numeral.
\<close>

definition v8_cannot_read :: "bool \<Rightarrow> jsstring \<Rightarrow> jsstring" where
  "v8_cannot_read is_null p =
     ascii ''Cannot read properties of ''
     @ (if is_null then ascii ''null'' else ascii ''undefined'')
     @ ascii '' (reading '' @ [0x0027] @ p @ [0x0027] @ ascii '')''"

definition plain_dateLabel :: "jsstring option \<Rightarrow> jsstring" where
  "plain_dateLabel x = (case x of Some s \<Rightarrow> s | None \<Rightarrow> ascii ''Invalid Date'')"

definition rendering :: "jsstring \<Rightarrow> jsstring" where
  "rendering r = r"

definition known_parseFloat :: "jsstring \<Rightarrow> jsstring" where
  "known_parseFloat s =
     (if s = ascii ''37.5665'' then ascii ''37.5665''
      else if s = ascii ''126.978'' then ascii ''126.978''
      else ascii ''NaN'')"

section \<open>Facts about the decimal numerals\<close>

lemma digit_eq_iff: "a < 10 \<Longrightarrow> b < 10 \<Longrightarrow> digit a = digit b \<longleftrightarrow> a = b"
proof -
  assume a: "a < 10" and b: "b < 10"
  have "unat (digit a) = 48 + a" "unat (digit b) = 48 + b"
    using a b by (simp_all only: digit_def unat_of_nat) simp_all
  then show ?thesis by (metis add_left_cancel)
qed

lemma digit_not_minus: "d < 10 \<Longrightarrow> digit d \<noteq> 0x2D"
proof
  assume d: "d < 10" and e: "digit d = 0x2D"
  have "unat (digit d) = 48 + d" using d by (simp only: digit_def unat_of_nat) simp
  with e show False by simp
qed

lemma digits_not_Nil: "digits n \<noteq> []"
  by (subst digits.simps) simp

lemma digits_inj: "digits n = digits m \<Longrightarrow> n = m"
proof (induction n arbitrary: m rule: digits.induct)
  case (1 n)
  show ?case
  proof (cases "n < 10")
    case True
    then have n: "digits n = [digit n]" by (subst digits.simps) simp
    show ?thesis
    proof (cases "m < 10")
      case m: True
      then have "digits m = [digit m]" by (subst digits.simps) simp
      with n "1.prems" True m show ?thesis by (simp add: digit_eq_iff)
    next
      case False
      then have "digits m = digits (m div 10) @ [digit (m mod 10)]" by (subst digits.simps) simp
      with n "1.prems" show ?thesis by (simp add: digits_not_Nil digits_not_Nil [symmetric])
    qed
  next
    case False
    then have n: "digits n = digits (n div 10) @ [digit (n mod 10)]" by (subst digits.simps) simp
    show ?thesis
    proof (cases "m < 10")
      case True
      then have "digits m = [digit m]" by (subst digits.simps) simp
      with n "1.prems" show ?thesis by (simp add: digits_not_Nil digits_not_Nil [symmetric])
    next
      case m: False
      then have "digits m = digits (m div 10) @ [digit (m mod 10)]" by (subst digits.simps) simp
      with n "1.prems" have a: "digits (n div 10) = digits (m div 10)"
        and b: "digit (n mod 10) = digit (m mod 10)" by simp_all
      from "1.IH" [OF False a] have "n div 10 = m div 10" .
      moreover from b have "n mod 10 = m mod 10" by (simp add: digit_eq_iff)
      ultimately show ?thesis by (metis div_mult_mod_eq)
    qed
  qed
qed

lemma hd_digits: "\<exists>d < 10. hd (digits n) = digit d"
proof (induction n rule: digits.induct)
  case (1 n)
  show ?case
  proof (cases "n < 10")
    case True
    then have "digits n = [digit n]" by (subst digits.simps) simp
    with True show ?thesis by auto
  next
    case False
    then have "digits n = digits (n div 10) @ [digit (n mod 10)]" by (subst digits.simps) simp
    with "1.IH" [OF False] show ?thesis by (simp add: digits_not_Nil)
  qed
qed

lemma digits_not_minus: "digits n \<noteq> 0x2D # s"
proof
  assume "digits n = 0x2D # s"
  then have "hd (digits n) = 0x2D" by simp
  with hd_digits [of n] show False by (auto simp: digit_not_minus)
qed

text \<open>Different integers have different numerals.\<close>

lemma int_to_string_inj: "int_to_string a = int_to_string b \<Longrightarrow> a = b"
  by (auto simp: int_to_string_def digits_not_minus digits_not_minus [symmetric]
      split: if_splits dest!: digits_inj)

text \<open>So reading a table at the numeral of an integer finds the entry written under that integer.\<close>

lemma property_int_key: "property table (int_to_string n) = map_of table n"
  unfolding property_def
  by (induction table) (auto dest: int_to_string_inj)

lemma property_None:
  "key \<notin> int_to_string ` fst ` set table \<Longrightarrow> property table key = None"
  unfolding property_def
  by (induction table) auto

lemma WEATHER_CODES_nonempty: "(k, description) \<in> set WEATHER_CODES \<Longrightarrow> description \<noteq> []"
  by (auto simp: WEATHER_CODES_def)

section \<open>Facts about the handlers\<close>

text \<open>
  When \<open>daily\<close> has its five arrays, no read of the loop throws, and the loop
  appends one block for each index from \<open>i\<close> up to the smaller of
  \<open>forecastDays\<close> and the length of \<open>daily.time\<close>, in order.
\<close>

lemma day_block_present:
  assumes "time d = Present dates" and "temperature_2m_max d = Present maxima"
    and "temperature_2m_min d = Present minima" and "precipitation_sum d = Present rains"
    and "weather_code d = Present codes"
  shows "day_block toString dateLabel cannotRead d i
           = Inr (day_text toString dateLabel dates maxima minima rains codes i)"
  using assms by (simp add: day_block_def read_of_def)

lemma forecast_loop_blocks:
  assumes "time d = Present dates" and "temperature_2m_max d = Present maxima"
    and "temperature_2m_min d = Present minima" and "precipitation_sum d = Present rains"
    and "weather_code d = Present codes"
  shows "forecast_loop toString dateLabel cannotRead forecastDays (Present d) i resultText =
           Inr (resultText
                @ concat (map (day_text toString dateLabel dates maxima minima rains codes)
                            [i..<nat (min forecastDays (int (length dates)))]))"
proof (induction "nat (min forecastDays (int (length dates))) - i" arbitrary: i resultText)
  case 0
  let ?m = "nat (min forecastDays (int (length dates)))"
  from 0 have "?m \<le> i" by simp
  then have c: "\<not> int i < min forecastDays (int (length dates))" by linarith
  from \<open>?m \<le> i\<close> have e: "[i..<?m] = []" by simp
  have "forecast_loop toString dateLabel cannotRead forecastDays (Present d) i resultText
          = Inr resultText"
    by (subst forecast_loop.simps)
       (simp only: read_of_def assms(1) field.case sum.case c if_False)
  then show ?case by (simp only: e list.map concat.simps append_Nil2)
next
  case (Suc k)
  let ?m = "nat (min forecastDays (int (length dates)))"
  from Suc.hyps(2) have lt: "i < ?m" by simp
  then have c: "int i < min forecastDays (int (length dates))" by linarith
  from lt have upt: "[i..<?m] = i # [Suc i..<?m]" by (rule upt_conv_Cons)
  from Suc.hyps(2) have k: "k = ?m - Suc i" by simp
  have "forecast_loop toString dateLabel cannotRead forecastDays (Present d) i resultText
          = forecast_loop toString dateLabel cannotRead forecastDays (Present d) (Suc i)
              (resultText @ day_text toString dateLabel dates maxima minima rains codes i)"
    by (subst forecast_loop.simps)
       (simp only: read_of_def assms(1) field.case sum.case c if_True
          day_block_present [OF assms])
  also have "\<dots> = Inr ((resultText @ day_text toString dateLabel dates maxima minima rains codes i)
                 @ concat (map (day_text toString dateLabel dates maxima minima rains codes)
                             [Suc i..<?m]))"
    by (rule Suc.hyps(1) [OF k])
  finally show ?case by (simp add: upt)
qed

text \<open>Whatever the runtime does with the time zone, the text of get-time contains it.\<close>

lemma get_time_contains_timezone:
  "\<exists>t. get_time format_now timezone = createTextResponse t \<and> sublist timezone t"
proof (cases "format_now timezone")
  case (Inl error)
  let ?t = "([0xC624, 0xB958] @ ascii '': '' @ [0xC720, 0xD6A8, 0xD558, 0xC9C0] @ ascii '' ''
              @ [0xC54A, 0xC740] @ ascii '' '' @ [0xD0C0, 0xC784, 0xC874, 0xC785, 0xB2C8, 0xB2E4]
              @ ascii ''. ('') @ timezone @ ascii '')''"
  have "get_time format_now timezone = createTextResponse ?t"
    using Inl by (simp add: get_time_def)
  moreover have "sublist timezone ?t" by (rule sublist_appendI)
  ultimately show ?thesis by blast
next
  case (Inr formattedTime)
  let ?t = "[] @ timezone @ ([0xC758] @ ascii '' '' @ [0xD604, 0xC7AC] @ ascii '' ''
             @ [0xC2DC, 0xAC04] @ ascii '': '' @ formattedTime)"
  have "get_time format_now timezone = createTextResponse ?t"
    using Inr by (simp add: get_time_def)
  moreover have "sublist timezone ?t" by (rule sublist_appendI)
  ultimately show ?thesis by blast
qed

section \<open>The claims\<close>

text \<open>
  Claim C1. For every string, the envelope of \<open>createTextResponse\<close> has exactly
  one item in its primary content list and exactly one in the structured-content
  mirror, both text items, and both carry the input text: the text of
  \<open>content[0]\<close> equals the text of \<open>structuredContent.content[0]\<close>. The
  string is arbitrary, so the empty string and strings with newlines or markup are
  included.
\<close>

theorem createTextResponse_mirror:
  "content (createTextResponse t) = [TextItem t]
   \<and> structuredContent (createTextResponse t) = Some [TextItem t]
   \<and> item_text (hd (content (createTextResponse t))) = t
   \<and> item_text (hd (the (structuredContent (createTextResponse t)))) = t
   \<and> length (content (createTextResponse t)) = 1
   \<and> length (the (structuredContent (createTextResponse t))) = 1"
  by (simp add: createTextResponse_def)

text \<open>
  Claim C2. For all numbers \<open>a\<close> and \<open>b\<close> and each of the four operators, the
  calculator returns the text envelope of \<open>a op b = r\<close>, each number rendered as
  a template literal renders it and \<open>r\<close> the native result of the operation;
  except for a division with \<^verbatim>\<open>b === 0\<close>, where the text is exactly the
  literal of line 130, written out here code unit by code unit: the two syllables of
  the word for error, a colon, a space, the digit 0, and the rest of the sentence up
  to its full stop. The literal has no \<open>=\<close> sign in it, so no result follows it.
\<close>

theorem calculator_text:
  "calculator A toString a b Plus =
     createTextResponse
       (toString a @ ascii '' + '' @ toString b @ ascii '' = '' @ toString (js_add A a b))
   \<and> calculator A toString a b Minus =
     createTextResponse
       (toString a @ ascii '' - '' @ toString b @ ascii '' = '' @ toString (js_sub A a b))
   \<and> calculator A toString a b Times =
     createTextResponse
       (toString a @ ascii '' * '' @ toString b @ ascii '' = '' @ toString (js_mul A a b))
   \<and> calculator A toString a b Divide =
     createTextResponse
       (if js_is_zero A b
        then [0xC624, 0xB958, 0x003A, 0x0020, 0x0030, 0xC73C, 0xB85C, 0x0020, 0xB098, 0xB20C,
              0x0020, 0xC218, 0x0020, 0xC5C6, 0xC2B5, 0xB2C8, 0xB2E4, 0x002E]
        else toString a @ ascii '' / '' @ toString b @ ascii '' = '' @ toString (js_div A a b))
   \<and> ZERO_DIVISION_TEXT =
       [0xC624, 0xB958, 0x003A, 0x0020, 0x0030, 0xC73C, 0xB85C, 0x0020, 0xB098, 0xB20C,
        0x0020, 0xC218, 0x0020, 0xC5C6, 0xC2B5, 0xB2C8, 0xB2E4, 0x002E]
   \<and> 0x3D \<notin> set ZERO_DIVISION_TEXT"
  by (simp add: calculator_def ZERO_DIVISION_TEXT_def ascii_def)

text \<open>
  Claim C3, as amended. For \<open>forecastDays\<close> from 1 to 16 and a response that
  is ok and whose parsed body has the objects \<^verbatim>\<open>current_weather\<close> and
  \<^verbatim>\<open>daily\<close> and, in \<^verbatim>\<open>daily\<close>, the arrays \<^verbatim>\<open>time\<close>,
  \<^verbatim>\<open>temperature_2m_max\<close>, \<^verbatim>\<open>temperature_2m_min\<close>,
  \<^verbatim>\<open>precipitation_sum\<close> and \<^verbatim>\<open>weather_code\<close>, the text of get-weather is
  the heading followed by per-day blocks, their number is the smaller of
  \<open>forecastDays\<close> and the length of \<^verbatim>\<open>daily.time\<close>, and the block of day
  \<open>i\<close> is the text of lines 285 to 288 for that day: a line with the label of
  the date, a line with the highest and the lowest temperature, a line with the
  precipitation and a line with the description of the weather code. The four arrays
  of values may be shorter or longer than \<^verbatim>\<open>daily.time\<close>.
\<close>

theorem get_weather_block_count:
  assumes "1 \<le> forecastDays" and "forecastDays \<le> 16"
  shows "\<exists>blocks.
           get_weather toString dateLabel cannotRead latitude longitude (Some forecastDays)
               (Response True status
                  (Inr (Present
                     \<lparr> current_weather = Present current,
                       daily = Present
                         \<lparr> time = Present dates,
                           temperature_2m_max = Present maxima,
                           temperature_2m_min = Present minima,
                           precipitation_sum = Present rains,
                           weather_code = Present codes \<rparr> \<rparr>)))
             = createTextResponse
                 (weather_heading toString latitude longitude forecastDays current
                  @ concat blocks)
           \<and> int (length blocks) = min forecastDays (int (length dates))
           \<and> (\<forall>i < length blocks.
                 blocks ! i =
                   [0x000A] @ dateLabel (Some (dates ! i)) @ ascii '':'' @ [0x000A]
                   @ ascii ''  '' @ [0xCD5C, 0xACE0] @ ascii '': ''
                   @ value_to_string toString (value_at maxima i)
                   @ [0x00B0] @ ascii ''C / '' @ [0xCD5C, 0xC800] @ ascii '': ''
                   @ value_to_string toString (value_at minima i)
                   @ [0x00B0] @ ascii ''C'' @ [0x000A]
                   @ ascii ''  '' @ [0xAC15, 0xC218, 0xB7C9] @ ascii '': ''
                   @ value_to_string toString (value_at rains i) @ ascii ''mm'' @ [0x000A]
                   @ ascii ''  '' @ [0xB0A0, 0xC528] @ ascii '': ''
                   @ getWeatherDescription toString (value_at codes i) @ [0x000A])"
proof -
  let ?m = "nat (min forecastDays (int (length dates)))"
  let ?d = "\<lparr> time = Present dates, temperature_2m_max = Present maxima,
              temperature_2m_min = Present minima, precipitation_sum = Present rains,
              weather_code = Present codes \<rparr>"
  let ?blocks = "map (day_text toString dateLabel dates maxima minima rains codes) [0..<?m]"
  have loop: "forecast_loop toString dateLabel cannotRead forecastDays (Present ?d) 0 h
                = Inr (h @ concat ?blocks)" for h
    by (rule forecast_loop_blocks) simp_all
  have "get_weather toString dateLabel cannotRead latitude longitude (Some forecastDays)
               (Response True status
                  (Inr (Present \<lparr> current_weather = Present current, daily = Present ?d \<rparr>)))
        = createTextResponse
            (weather_heading toString latitude longitude forecastDays current @ concat ?blocks)"
    by (simp add: get_weather_def weather_text_def read_of_def loop)
  moreover have "int (length ?blocks) = min forecastDays (int (length dates))"
    using assms by simp
  moreover have "\<forall>i < length ?blocks.
                 ?blocks ! i =
                   [0x000A] @ dateLabel (Some (dates ! i)) @ ascii '':'' @ [0x000A]
                   @ ascii ''  '' @ [0xCD5C, 0xACE0] @ ascii '': ''
                   @ value_to_string toString (value_at maxima i)
                   @ [0x00B0] @ ascii ''C / '' @ [0xCD5C, 0xC800] @ ascii '': ''
                   @ value_to_string toString (value_at minima i)
                   @ [0x00B0] @ ascii ''C'' @ [0x000A]
                   @ ascii ''  '' @ [0xAC15, 0xC218, 0xB7C9] @ ascii '': ''
                   @ value_to_string toString (value_at rains i) @ ascii ''mm'' @ [0x000A]
                   @ ascii ''  '' @ [0xB0A0, 0xC528] @ ascii '': ''
                   @ getWeatherDescription toString (value_at codes i) @ [0x000A]"
    by (auto simp: day_text_def element_def)
  ultimately show ?thesis by blast
qed

text \<open>
  At integer-valued numbers rendered by \<open>int_to_string\<close>, with the date string
  standing for its own label: two forecast days are asked for, the service returns
  three, and the text is the heading and the blocks of the first two days.
\<close>

theorem get_weather_block_count_witness:
  "get_weather int_to_string plain_dateLabel v8_cannot_read 37 127 (Some 2)
      (Response True 200
         (Inr (Present
            \<lparr> current_weather =
                Present \<lparr> temperature = Number 1, weathercode = Number 3, windspeed = Number 9 \<rparr>,
              daily = Present
                \<lparr> time = Present [ascii ''2024-01-05'', ascii ''2024-01-06'', ascii ''2024-01-07''],
                  temperature_2m_max = Present [Number 3, Number 5, Number 4],
                  temperature_2m_min = Present [Number (- 4), Number (- 2), Null],
                  precipitation_sum = Present [Number 0, Number 1],
                  weather_code = Present [Number 0, Number 71, Number 4] \<rparr> \<rparr>)))
     = createTextResponse
         (weather_heading int_to_string 37 127 2
            \<lparr> temperature = Number 1, weathercode = Number 3, windspeed = Number 9 \<rparr>
          @ ([0x000A] @ ascii ''2024-01-05:'' @ [0x000A]
             @ ascii ''  '' @ [0xCD5C, 0xACE0] @ ascii '': 3'' @ [0x00B0] @ ascii ''C / ''
             @ [0xCD5C, 0xC800] @ ascii '': -4'' @ [0x00B0] @ ascii ''C'' @ [0x000A]
             @ ascii ''  '' @ [0xAC15, 0xC218, 0xB7C9] @ ascii '': 0mm'' @ [0x000A]
             @ ascii ''  '' @ [0xB0A0, 0xC528] @ ascii '': '' @ [0xB9D1, 0xC74C, 0x000A])
          @ ([0x000A] @ ascii ''2024-01-06:'' @ [0x000A]
             @ ascii ''  '' @ [0xCD5C, 0xACE0] @ ascii '': 5'' @ [0x00B0] @ ascii ''C / ''
             @ [0xCD5C, 0xC800] @ ascii '': -2'' @ [0x00B0] @ ascii ''C'' @ [0x000A]
             @ ascii ''  '' @ [0xAC15, 0xC218, 0xB7C9] @ ascii '': 1mm'' @ [0x000A]
             @ ascii ''  '' @ [0xB0A0, 0xC528] @ ascii '': '' @ [0xC57D, 0xD55C, 0x0020, 0xB208, 0x000A]))"
proof -
  have h1: "(1::int) \<le> 2" and h2: "(2::int) \<le> 16" by simp_all
  have d0: "getWeatherDescription int_to_string (Number 0) = [0xB9D1, 0xC74C]"
    by (simp add: getWeatherDescription_def property_int_key WEATHER_CODES_def)
  have d71: "getWeatherDescription int_to_string (Number 71) = [0xC57D, 0xD55C, 0x0020, 0xB208]"
    by (simp add: getWeatherDescription_def property_int_key WEATHER_CODES_def ascii_def)
  have n: "int_to_string 3 = ascii ''3''" "int_to_string (- 4) = ascii ''-4''"
    "int_to_string 0 = ascii ''0''" "int_to_string 5 = ascii ''5''"
    "int_to_string (- 2) = ascii ''-2''" "int_to_string 1 = ascii ''1''"
    by (simp_all add: int_to_string_def digits.simps digit_def ascii_def)
  from get_weather_block_count [OF h1 h2, of int_to_string plain_dateLabel v8_cannot_read
      37 127 200 "\<lparr> temperature = Number 1, weathercode = Number 3, windspeed = Number 9 \<rparr>"
      "[ascii ''2024-01-05'', ascii ''2024-01-06'', ascii ''2024-01-07'']"
      "[Number 3, Number 5, Number 4]" "[Number (- 4), Number (- 2), Null]"
      "[Number 0, Number 1]" "[Number 0, Number 71, Number 4]"]
  obtain blocks where
    g: "get_weather int_to_string plain_dateLabel v8_cannot_read 37 127 (Some 2)
      (Response True 200
         (Inr (Present
            \<lparr> current_weather =
                Present \<lparr> temperature = Number 1, weathercode = Number 3, windspeed = Number 9 \<rparr>,
              daily = Present
                \<lparr> time = Present [ascii ''2024-01-05'', ascii ''2024-01-06'', ascii ''2024-01-07''],
                  temperature_2m_max = Present [Number 3, Number 5, Number 4],
                  temperature_2m_min = Present [Number (- 4), Number (- 2), Null],
                  precipitation_sum = Present [Number 0, Number 1],
                  weather_code = Present [Number 0, Number 71, Number 4] \<rparr> \<rparr>)))
     = createTextResponse
         (weather_heading int_to_string 37 127 2
            \<lparr> temperature = Number 1, weathercode = Number 3, windspeed = Number 9 \<rparr>
          @ concat blocks)"
    and len: "length blocks = 2"
    and b0: "blocks ! 0 =
               [0x000A] @ ascii ''2024-01-05:'' @ [0x000A]
             @ ascii ''  '' @ [0xCD5C, 0xACE0] @ ascii '': 3'' @ [0x00B0] @ ascii ''C / ''
             @ [0xCD5C, 0xC800] @ ascii '': -4'' @ [0x00B0] @ ascii ''C'' @ [0x000A]
             @ ascii ''  '' @ [0xAC15, 0xC218, 0xB7C9] @ ascii '': 0mm'' @ [0x000A]
             @ ascii ''  '' @ [0xB0A0, 0xC528] @ ascii '': '' @ [0xB9D1, 0xC74C, 0x000A]"
    and b1: "blocks ! 1 =
               [0x000A] @ ascii ''2024-01-06:'' @ [0x000A]
             @ ascii ''  '' @ [0xCD5C, 0xACE0] @ ascii '': 5'' @ [0x00B0] @ ascii ''C / ''
             @ [0xCD5C, 0xC800] @ ascii '': -2'' @ [0x00B0] @ ascii ''C'' @ [0x000A]
             @ ascii ''  '' @ [0xAC15, 0xC218, 0xB7C9] @ ascii '': 1mm'' @ [0x000A]
             @ ascii ''  '' @ [0xB0A0, 0xC528] @ ascii '': '' @ [0xC57D, 0xD55C, 0x0020, 0xB208, 0x000A]"
    by (auto simp: d0 d71 n value_at_def element_def plain_dateLabel_def ascii_def)
  from len have "blocks = [blocks ! 0, blocks ! 1]"
    by (cases blocks; cases "tl blocks") auto
  then have "concat blocks = blocks ! 0 @ blocks ! 1" by (metis concat.simps append_Nil2)
  with g b0 b1 show ?thesis by (simp only: append_assoc)
qed

text \<open>
  The claim as it was stated, for every parsed response whose daily series has length
  \<open>L\<close>, fails: here the response is ok and parsed, \<^verbatim>\<open>daily.time\<close> has
  three days and two are asked for, but the body has no
  \<^verbatim>\<open>daily.temperature_2m_max\<close>. The read of line 286 throws in the first pass
  of the loop, the \<^verbatim>\<open>catch\<close> block answers with the failure text, and that text
  has no line break in it, while every block begins with one: there are no blocks
  where the claim has two.
\<close>

theorem get_weather_missing_array_counterexample:
  "get_weather int_to_string plain_dateLabel v8_cannot_read 37 127 (Some 2)
      (Response True 200
         (Inr (Present
            \<lparr> current_weather =
                Present \<lparr> temperature = Number 1, weathercode = Number 3, windspeed = Number 9 \<rparr>,
              daily = Present
                \<lparr> time = Present [ascii ''2024-01-05'', ascii ''2024-01-06'', ascii ''2024-01-07''],
                  temperature_2m_max = Absent,
                  temperature_2m_min = Present [Number (- 4), Number (- 2), Null],
                  precipitation_sum = Present [Number 0, Number 1],
                  weather_code = Present [Number 0, Number 71, Number 4] \<rparr> \<rparr>)))
     = createTextResponse
         ([0xC624, 0xB958] @ ascii '': '' @ [0xB0A0, 0xC528] @ ascii '' '' @ [0xC815, 0xBCF4, 0xB97C]
          @ ascii '' '' @ [0xC870, 0xD68C, 0xD558, 0xB294] @ ascii '' '' @ [0xC911] @ ascii '' ''
          @ [0xBB38, 0xC81C, 0xAC00] @ ascii '' ''
          @ [0xBC1C, 0xC0DD, 0xD588, 0xC2B5, 0xB2C8, 0xB2E4]
          @ ascii ''. Cannot read properties of undefined (reading '' @ [0x0027] @ ascii ''0''
          @ [0x0027] @ ascii '')'')
   \<and> 0x000A \<notin> set
         ([0xC624, 0xB958] @ ascii '': '' @ [0xB0A0, 0xC528] @ ascii '' '' @ [0xC815, 0xBCF4, 0xB97C]
          @ ascii '' '' @ [0xC870, 0xD68C, 0xD558, 0xB294] @ ascii '' '' @ [0xC911] @ ascii '' ''
          @ [0xBB38, 0xC81C, 0xAC00] @ ascii '' ''
          @ [0xBC1C, 0xC0DD, 0xD588, 0xC2B5, 0xB2C8, 0xB2E4]
          @ ascii ''. Cannot read properties of undefined (reading '' @ [0x0027] @ ascii ''0''
          @ [0x0027] @ ascii '')'')
   \<and> min 2 (int (length [ascii ''2024-01-05'', ascii ''2024-01-06'', ascii ''2024-01-07''])) = 2"
proof -
  have "forecast_loop int_to_string plain_dateLabel v8_cannot_read 2
          (Present \<lparr> time = Present [ascii ''2024-01-05'', ascii ''2024-01-06'', ascii ''2024-01-07''],
                  temperature_2m_max = Absent,
                  temperature_2m_min = Present [Number (- 4), Number (- 2), Null],
                  precipitation_sum = Present [Number 0, Number 1],
                  weather_code = Present [Number 0, Number 71, Number 4] \<rparr>) 0 h
        = Inl (ErrorInstance (v8_cannot_read False (int_to_string 0)))" for h
    by (subst forecast_loop.simps) (simp add: read_of_def day_block_def)
  then show ?thesis
    by (simp add: get_weather_def weather_text_def read_of_def weather_failure_def
        v8_cannot_read_def int_to_string_def digits.simps digit_def ascii_def)
qed

text \<open>
  Claim C4. Let a number \<open>x\<close> be rendered as the decimal numeral of the integer
  \<open>n\<close>, as every integer-valued number below \<open>10^21\<close> in magnitude is. When
  \<open>n\<close> is a key of \<open>WEATHER_CODES\<close>, \<open>getWeatherDescription\<close> returns
  the description the table has under \<open>n\<close>; when it is not, it returns the
  fallback label, the two code units of line 61, a space and the numeral of \<open>n\<close>.
  More generally the fallback label, with the rendering of the number in it, is
  returned for every number whose rendering is not the numeral of a key. The
  function returns a string in each case: it has no failing branch.
\<close>

theorem getWeatherDescription_integer:
  "(toString x = int_to_string n \<and> n \<in> fst ` set WEATHER_CODES \<longrightarrow>
      map_of WEATHER_CODES n = Some (getWeatherDescription toString (Number x)))
   \<and> (toString x = int_to_string n \<and> n \<notin> fst ` set WEATHER_CODES \<longrightarrow>
      getWeatherDescription toString (Number x)
        = [0xCF54, 0xB4DC] @ ascii '' '' @ int_to_string n)
   \<and> (toString x \<notin> int_to_string ` fst ` set WEATHER_CODES \<longrightarrow>
      getWeatherDescription toString (Number x)
        = [0xCF54, 0xB4DC] @ ascii '' '' @ toString x)"
proof (intro conjI impI)
  assume a: "toString x = int_to_string n \<and> n \<in> fst ` set WEATHER_CODES"
  then obtain description where d: "map_of WEATHER_CODES n = Some description"
    by (metis map_of_eq_None_iff not_Some_eq)
  then have "description \<noteq> []" by (meson map_of_SomeD WEATHER_CODES_nonempty)
  with a d show "map_of WEATHER_CODES n = Some (getWeatherDescription toString (Number x))"
    by (simp add: getWeatherDescription_def property_int_key)
next
  assume a: "toString x = int_to_string n \<and> n \<notin> fst ` set WEATHER_CODES"
  then have "map_of WEATHER_CODES n = None" by (simp add: map_of_eq_None_iff)
  with a show "getWeatherDescription toString (Number x)
                 = [0xCF54, 0xB4DC] @ ascii '' '' @ int_to_string n"
    by (simp add: getWeatherDescription_def property_int_key)
next
  assume "toString x \<notin> int_to_string ` fst ` set WEATHER_CODES"
  then have "property WEATHER_CODES (toString x) = None" by (rule property_None)
  then show "getWeatherDescription toString (Number x)
               = [0xCF54, 0xB4DC] @ ascii '' '' @ toString x"
    by (simp add: getWeatherDescription_def)
qed

text \<open>Code 45 is in the table, code 4 is not.\<close>

theorem getWeatherDescription_integer_witness:
  "getWeatherDescription int_to_string (Number 45) = [0xC548, 0xAC1C]
   \<and> getWeatherDescription int_to_string (Number 4) = [0xCF54, 0xB4DC, 0x20, 0x34]"
proof -
  have k: "(45::int) \<in> fst ` set WEATHER_CODES" and nk: "(4::int) \<notin> fst ` set WEATHER_CODES"
    by (simp_all add: WEATHER_CODES_def)
  have m: "map_of WEATHER_CODES 45 = Some [0xC548, 0xAC1C]"
    by (simp add: WEATHER_CODES_def)
  have e: "[0xCF54, 0xB4DC] @ ascii '' '' @ int_to_string 4 = [0xCF54, 0xB4DC, 0x20, 0x34]"
    by (simp add: ascii_def int_to_string_def digits.simps digit_def)
  have "map_of WEATHER_CODES 45 = Some (getWeatherDescription int_to_string (Number 45))"
    using getWeatherDescription_integer [of int_to_string 45 45, THEN conjunct1] k by blast
  with m have "getWeatherDescription int_to_string (Number 45) = [0xC548, 0xAC1C]"
    by simp
  moreover
  have "getWeatherDescription int_to_string (Number 4)
          = [0xCF54, 0xB4DC] @ ascii '' '' @ int_to_string 4"
    using getWeatherDescription_integer [of int_to_string 4 4, THEN conjunct2, THEN conjunct1] nk
    by blast
  with e have "getWeatherDescription int_to_string (Number 4) = [0xCF54, 0xB4DC, 0x20, 0x34]"
    by (simp only:)
  ultimately show ?thesis by (rule conjI)
qed


text \<open>
  Claim C6. For every time zone string the runtime does not accept, so that building
  the formatter throws, the get-time handler returns the text envelope of the
  message of line 170, which has the time zone string between its parentheses; so
  the text contains the string. The handler returns an envelope for every outcome of
  the formatting: nothing is thrown to its caller.
\<close>

theorem get_time_invalid_timezone:
  assumes "format_now timezone = Inl error"
  shows "get_time format_now timezone =
           createTextResponse
             ([0xC624, 0xB958] @ ascii '': '' @ [0xC720, 0xD6A8, 0xD558, 0xC9C0] @ ascii '' ''
              @ [0xC54A, 0xC740] @ ascii '' '' @ [0xD0C0, 0xC784, 0xC874, 0xC785, 0xB2C8, 0xB2E4]
              @ ascii ''. ('' @ timezone @ ascii '')'')
         \<and> (\<exists>t. get_time format_now timezone = createTextResponse t \<and> sublist timezone t)"
  using assms get_time_contains_timezone [of format_now timezone]
  by (simp add: get_time_def)

text \<open>A runtime that rejects every time zone, asked for \<open>Mars/Phobos\<close>.\<close>

theorem get_time_invalid_timezone_witness:
  "get_time (\<lambda>tz. Inl (ErrorInstance (ascii ''Invalid time zone specified: '' @ tz)))
       (ascii ''Mars/Phobos'')
     = createTextResponse
         ([0xC624, 0xB958] @ ascii '': '' @ [0xC720, 0xD6A8, 0xD558, 0xC9C0] @ ascii '' ''
          @ [0xC54A, 0xC740] @ ascii '' '' @ [0xD0C0, 0xC784, 0xC874, 0xC785, 0xB2C8, 0xB2E4]
          @ ascii ''. (Mars/Phobos)'')"
  using get_time_invalid_timezone
    [of "\<lambda>tz. Inl (ErrorInstance (ascii ''Invalid time zone specified: '' @ tz))"
        "ascii ''Mars/Phobos''"
        "ErrorInstance (ascii ''Invalid time zone specified: '' @ ascii ''Mars/Phobos'')"]
  by (simp add: ascii_def)

text \<open>
  Claim C7. For every name, the greeting for the language \<open>ko\<close> begins with the
  five syllables of line 91 followed by a comma and ends with the syllable of line
  91 followed by an exclamation mark; the greeting for \<open>en\<close> contains the name
  and an exclamation mark. The default the schema declares for \<open>language\<close> is
  \<open>en\<close>, with it the handler returns the English phrasing of line 92, and it
  returns the same when it is called with no language at all.
\<close>

theorem greet_phrasing:
  "(\<exists>t. greet name (Some (ascii ''ko'')) = createTextResponse t
        \<and> prefix ([0xC548, 0xB155, 0xD558, 0xC138, 0xC694] @ ascii '','') t
        \<and> suffix ([0xB2D8] @ ascii ''!'') t)
   \<and> (\<exists>t. greet name (Some (ascii ''en'')) = createTextResponse t
        \<and> sublist name t \<and> 0x21 \<in> set t)
   \<and> language_default = ascii ''en''
   \<and> greet name (Some language_default) =
       createTextResponse
         (ascii ''Hey there, '' @ name @ ascii ''! '' @ [0xD83D, 0xDC4B]
          @ ascii '' Nice to meet you!'')
   \<and> greet name None = greet name (Some language_default)"
proof (intro conjI)
  let ?ko = "[0xC548, 0xB155, 0xD558, 0xC138, 0xC694] @ ascii '', '' @ name @ [0xB2D8] @ ascii ''!''"
  let ?en = "ascii ''Hey there, '' @ name @ ascii ''! '' @ [0xD83D, 0xDC4B]
             @ ascii '' Nice to meet you!''"
  have ko: "greet name (Some (ascii ''ko'')) = createTextResponse ?ko"
    by (simp add: greet_def)
  have "prefix ([0xC548, 0xB155, 0xD558, 0xC138, 0xC694] @ ascii '','') ?ko"
    by (simp add: ascii_def)
  moreover have "suffix ([0xB2D8] @ ascii ''!'') ?ko"
    by (simp add: suffix_def)
  ultimately show "\<exists>t. greet name (Some (ascii ''ko'')) = createTextResponse t
        \<and> prefix ([0xC548, 0xB155, 0xD558, 0xC138, 0xC694] @ ascii '','') t
        \<and> suffix ([0xB2D8] @ ascii ''!'') t"
    using ko by blast
  have en: "greet name (Some (ascii ''en'')) = createTextResponse ?en"
    by (simp add: greet_def ascii_def)
  have "sublist name ?en" by (rule sublist_appendI)
  moreover have "0x21 \<in> set ?en" by (simp add: ascii_def)
  ultimately show "\<exists>t. greet name (Some (ascii ''en'')) = createTextResponse t
        \<and> sublist name t \<and> 0x21 \<in> set t"
    using en by blast
  show "language_default = ascii ''en''" by (simp add: language_default_def)
  show "greet name (Some language_default) = createTextResponse ?en"
    using en by (simp add: language_default_def)
  show "greet name None = greet name (Some language_default)"
    by (simp add: greet_def language_default_def ascii_def)
qed

text \<open>
  Claim C8. For the two fields that declare a default: validating the field when it
  is absent gives the default (\<open>en\<close> for \<open>language\<close>, 7 for
  \<open>forecastDays\<close>); a value that is present and valid (one of the two enum
  members, an integer from 1 to 16) is kept as it is; and every value that is present
  and not valid, whatever its type, is rejected and not replaced by the default.
\<close>

theorem defaults_cover_absence_only:
  "language_schema None = Inr (Some language_default)
   \<and> forecastDays_schema None = Inr (Some 7)
   \<and> (\<forall>s. s \<in> {ascii ''ko'', ascii ''en''} \<longrightarrow>
          language_schema (Some (RString s)) = Inr (Some s))
   \<and> (\<forall>v. v \<notin> {RString (ascii ''ko''), RString (ascii ''en'')} \<longrightarrow>
          isl (language_schema (Some v)))
   \<and> (\<forall>k. 1 \<le> k \<and> k \<le> 16 \<longrightarrow>
          forecastDays_schema (Some (RNumber (of_int k))) = Inr (Some (of_int k)))
   \<and> (\<forall>v. (\<nexists>k. 1 \<le> k \<and> k \<le> 16 \<and> v = RNumber (of_int k)) \<longrightarrow>
          isl (forecastDays_schema (Some v)))"
proof (intro conjI allI impI)
  show "language_schema None = Inr (Some language_default)"
    by (simp add: language_schema_def z_default_def z_optional_def z_enum_def language_default_def)
  show "forecastDays_schema None = Inr (Some 7)"
    by (simp add: forecastDays_schema_def z_default_def z_optional_def z_number_def)
next
  fix s :: jsstring assume "s \<in> {ascii ''ko'', ascii ''en''}"
  then show "language_schema (Some (RString s)) = Inr (Some s)"
    by (auto simp: language_schema_def z_default_def z_optional_def z_enum_def)
next
  fix v assume "v \<notin> {RString (ascii ''ko''), RString (ascii ''en'')}"
  then show "isl (language_schema (Some v))"
    by (cases v) (auto simp: language_schema_def z_default_def z_optional_def z_enum_def)
next
  fix k :: int assume "1 \<le> k \<and> k \<le> 16"
  then show "forecastDays_schema (Some (RNumber (of_int k))) = Inr (Some (of_int k))"
    by (simp add: forecastDays_schema_def z_default_def z_optional_def z_number_def)
next
  fix v assume n: "\<nexists>k. 1 \<le> k \<and> k \<le> 16 \<and> v = RNumber (of_int k)"
  show "isl (forecastDays_schema (Some v))"
  proof (cases v)
    case (RNumber x)
    have "\<not> (of_int \<lfloor>x\<rfloor> = x \<and> 1 \<le> x \<and> x \<le> 16)"
    proof
      assume a: "of_int \<lfloor>x\<rfloor> = x \<and> 1 \<le> x \<and> x \<le> 16"
      from a have "of_int \<lfloor>x\<rfloor> = x" by (rule conjunct1)
      then have e: "x = of_int \<lfloor>x\<rfloor>" by (rule sym)
      from a have "1 \<le> \<lfloor>x\<rfloor>" "\<lfloor>x\<rfloor> \<le> 16" by linarith+
      with e RNumber have "1 \<le> \<lfloor>x\<rfloor> \<and> \<lfloor>x\<rfloor> \<le> 16 \<and> v = RNumber (of_int \<lfloor>x\<rfloor>)"
        by simp
      with n show False by blast
    qed
    then show ?thesis
      using RNumber
      by (auto simp: forecastDays_schema_def z_default_def z_optional_def z_number_def)
  qed (simp_all add: forecastDays_schema_def z_default_def z_optional_def z_number_def)
qed

text \<open>
  Values that are present: a member of the enum and the bound 16 are kept; a string
  outside the enum, \<^verbatim>\<open>null\<close>, 17, 0, 2.5 and the string \<open>7\<close> are rejected.
\<close>

theorem defaults_cover_absence_only_witness:
  "language_schema (Some (RString (ascii ''ko''))) = Inr (Some (ascii ''ko''))
   \<and> isl (language_schema (Some (RString (ascii ''fr''))))
   \<and> isl (language_schema (Some RNull))
   \<and> forecastDays_schema (Some (RNumber 16)) = Inr (Some 16)
   \<and> isl (forecastDays_schema (Some (RNumber 17)))
   \<and> isl (forecastDays_schema (Some (RNumber 0)))
   \<and> isl (forecastDays_schema (Some (RNumber (5 / 2))))
   \<and> isl (forecastDays_schema (Some (RString (ascii ''7''))))"
proof -
  note t = defaults_cover_absence_only
  note present_valid = t [THEN conjunct2, THEN conjunct2, THEN conjunct2, THEN conjunct2,
      THEN conjunct1, THEN spec]
  note present_invalid = t [THEN conjunct2, THEN conjunct2, THEN conjunct2, THEN conjunct2,
      THEN conjunct2, THEN spec]
  have half: "real_of_int k \<noteq> 5 / 2" for k
  proof
    assume "real_of_int k = 5 / 2"
    then have "real_of_int (2 * k) = real_of_int 5" by simp
    then have "2 * k = 5" by (simp only: of_int_eq_iff)
    then show False by presburger
  qed
  have "language_schema (Some (RString (ascii ''ko''))) = Inr (Some (ascii ''ko''))"
    using t by simp
  moreover have "isl (language_schema (Some (RString (ascii ''fr''))))"
    using t by (simp add: ascii_def)
  moreover have "isl (language_schema (Some RNull))"
    using t by simp
  moreover have "forecastDays_schema (Some (RNumber 16)) = Inr (Some 16)"
    using present_valid [of 16] by simp
  moreover have "isl (forecastDays_schema (Some (RNumber 17)))"
    using present_invalid [of "RNumber 17"] by auto
  moreover have "isl (forecastDays_schema (Some (RNumber 0)))"
    using present_invalid [of "RNumber 0"] by auto
  moreover have "isl (forecastDays_schema (Some (RNumber (5 / 2))))"
    using present_invalid [of "RNumber (5 / 2)"] half by auto
  moreover have "isl (forecastDays_schema (Some (RString (ascii ''7''))))"
    using present_invalid [of "RString (ascii ''7'')"] by auto
  ultimately show ?thesis by blast
qed

text \<open>
  Claim C9. The tool catalog of the server-info payload has as many entries as
  \<open>createServer\<close> registers tools, namely six, its field \<open>totalTools\<close> is
  that number, and the names in the catalog are the registered names, in the order
  of registration.
\<close>

theorem catalog_matches_registry:
  "length (tools (server_info now up)) = length (registeredTools createServer)
   \<and> length (registeredTools createServer) = 6
   \<and> totalTools (server_info now up) = length (registeredTools createServer)
   \<and> map tool_name (tools (server_info now up)) = registeredTools createServer"
  by (simp add: server_info_def createServer_def registerTool_def registerPrompt_def
      registerResource_def)

text \<open>
  Claim C10, as amended. When the lookup of geocode succeeds with a non-empty array
  whose first element is not \<^verbatim>\<open>null\<close> and has no \<open>display_name\<close>, the text
  of the response has the caller's address in its address line, followed by the lines
  of the latitude and the longitude as \<^verbatim>\<open>parseFloat\<close> read them from the
  element, and the pair of both.
\<close>

theorem geocode_display_name_fallback:
  "geocode parseFloat toString cannotRead address
     (Response True status
        (Inr (Places (Present \<lparr> lat = la, lon = lo, display_name = None \<rparr> # rest))))
   = createTextResponse
       ([0xC8FC, 0xC18C] @ ascii '': '' @ address
        @ [0x000A, 0xC704, 0xB3C4] @ ascii '': '' @ toString (parseFloat (field_string la))
        @ [0x000A, 0xACBD, 0xB3C4] @ ascii '': '' @ toString (parseFloat (field_string lo))
        @ [0x000A, 0xC88C, 0xD45C] @ ascii '': ('' @ toString (parseFloat (field_string la))
        @ ascii '', '' @ toString (parseFloat (field_string lo)) @ ascii '')'')"
  by (simp add: geocode_def read_of_def or_else_def Let_def)

text \<open>A lookup of \<open>Seoul\<close> that returns one place, with coordinates and no display name.\<close>

theorem geocode_display_name_fallback_witness:
  "geocode known_parseFloat rendering v8_cannot_read (ascii ''Seoul'')
     (Response True 200
        (Inr (Places [Present \<lparr> lat = Some (ascii ''37.5665''), lon = Some (ascii ''126.978''),
                                display_name = None \<rparr>])))
   = createTextResponse
       ([0xC8FC, 0xC18C] @ ascii '': Seoul''
        @ [0x000A, 0xC704, 0xB3C4] @ ascii '': 37.5665''
        @ [0x000A, 0xACBD, 0xB3C4] @ ascii '': 126.978''
        @ [0x000A, 0xC88C, 0xD45C] @ ascii '': (37.5665, 126.978)'')"
  using geocode_display_name_fallback [of known_parseFloat rendering v8_cannot_read
      "ascii ''Seoul''" 200 "Some (ascii ''37.5665'')" "Some (ascii ''126.978'')" "[]"]
  by (simp add: known_parseFloat_def rendering_def field_string_def ascii_def)

text \<open>
  The claim as it was stated, for every non-empty array whose first element has no
  \<open>display_name\<close> field, fails when that element is \<^verbatim>\<open>null\<close>: the read
  \<^verbatim>\<open>result.lat\<close> of line 208 throws, the \<^verbatim>\<open>catch\<close> block answers with the
  failure text, and the caller's address is nowhere in it.
\<close>

theorem geocode_null_element_counterexample:
  "geocode known_parseFloat rendering v8_cannot_read (ascii ''Seoul'')
     (Response True 200 (Inr (Places [IsNull])))
   = createTextResponse
       ([0xC624, 0xB958] @ ascii '': '' @ [0xC8FC, 0xC18C, 0xB97C] @ ascii '' ''
        @ [0xC870, 0xD68C, 0xD558, 0xB294] @ ascii '' '' @ [0xC911] @ ascii '' ''
        @ [0xBB38, 0xC81C, 0xAC00] @ ascii '' ''
        @ [0xBC1C, 0xC0DD, 0xD588, 0xC2B5, 0xB2C8, 0xB2E4]
        @ ascii ''. Cannot read properties of null (reading '' @ [0x0027] @ ascii ''lat''
        @ [0x0027] @ ascii '')'')
   \<and> \<not> sublist (ascii ''Seoul'')
       ([0xC624, 0xB958] @ ascii '': '' @ [0xC8FC, 0xC18C, 0xB97C] @ ascii '' ''
        @ [0xC870, 0xD68C, 0xD558, 0xB294] @ ascii '' '' @ [0xC911] @ ascii '' ''
        @ [0xBB38, 0xC81C, 0xAC00] @ ascii '' ''
        @ [0xBC1C, 0xC0DD, 0xD588, 0xC2B5, 0xB2C8, 0xB2E4]
        @ ascii ''. Cannot read properties of null (reading '' @ [0x0027] @ ascii ''lat''
        @ [0x0027] @ ascii '')'')"
proof -
  let ?t = "[0xC624, 0xB958] @ ascii '': '' @ [0xC8FC, 0xC18C, 0xB97C] @ ascii '' ''
        @ [0xC870, 0xD68C, 0xD558, 0xB294] @ ascii '' '' @ [0xC911] @ ascii '' ''
        @ [0xBB38, 0xC81C, 0xAC00] @ ascii '' ''
        @ [0xBC1C, 0xC0DD, 0xD588, 0xC2B5, 0xB2C8, 0xB2E4]
        @ ascii ''. Cannot read properties of null (reading '' @ [0x0027] @ ascii ''lat''
        @ [0x0027] @ ascii '')''"
  have "geocode known_parseFloat rendering v8_cannot_read (ascii ''Seoul'')
          (Response True 200 (Inr (Places [IsNull]))) = createTextResponse ?t"
    by (simp add: geocode_def read_of_def geocode_failure_def v8_cannot_read_def ascii_def)
  moreover have "\<not> sublist (ascii ''Seoul'') ?t"
  proof
    assume "sublist (ascii ''Seoul'') ?t"
    then have "set (ascii ''Seoul'') \<subseteq> set ?t" by (rule set_mono_sublist)
    moreover have "0x53 \<in> set (ascii ''Seoul'')" by (simp add: ascii_def)
    moreover have "0x53 \<notin> set ?t" by (simp add: ascii_def)
    ultimately show False by blast
  qed
  ultimately show ?thesis by (rule conjI)
qed

end
